theory Spec2Isabelle
  imports Main "HOL-Library.Char_ord" "HOL-Library.List_Lexorder" "HOL-Library.Multiset"
begin

section \<open>Mergington High School API (src/app.py)\<close>

text \<open>
  The application keeps two pieces of state: the in-memory dictionary \<open>activities\<close> and
  the SQLite table \<open>testimonials\<close>. Every request handler is modelled as a function from
  the state before the request to the outcome of the request paired with the state after
  it. An outcome is either the \<open>HTTPException\<close> the handler raises (\<open>Inl\<close>) or the
  dictionary it returns (\<open>Inr\<close>).
\<close>

subsection \<open>Responses and errors\<close>

text \<open>
  What a handler can raise: \<open>HTTPException(status_code=..., detail=...)\<close>, which the
  framework turns into a response with that status, and the \<open>OverflowError\<close> of the
  \<open>sqlite3\<close> module, which no handler catches, so that the framework answers 500.
\<close>

datatype http_error = HTTPException (status_code: nat) (detail: string) | OverflowError

text \<open>The values that occur in the dictionaries the handlers return.\<close>

datatype json = JInt int | JStr string | JBool bool

type_synonym jdict = "(string \<times> json) list"

subsection \<open>The activity roster\<close>

text \<open>One value of the dictionary \<open>activities\<close>; the key is the activity's name.\<close>

record activity =
  description :: string
  schedule :: string
  max_participants :: int
  participants :: "string list"

type_synonym roster = "string \<rightharpoonup> activity"

text \<open>The seed data the module creates when it is loaded.\<close>

definition activities :: roster where
  "activities = map_of
    [(''Chess Club'',
       \<lparr>description = ''Learn strategies and compete in chess tournaments'',
        schedule = ''Fridays, 3:30 PM - 5:00 PM'',
        max_participants = 12,
        participants = [''michael@mergington.edu'', ''daniel@mergington.edu'']\<rparr>),
     (''Programming Class'',
       \<lparr>description = ''Learn programming fundamentals and build software projects'',
        schedule = ''Tuesdays and Thursdays, 3:30 PM - 4:30 PM'',
        max_participants = 20,
        participants = [''emma@mergington.edu'', ''sophia@mergington.edu'']\<rparr>),
     (''Gym Class'',
       \<lparr>description = ''Physical education and sports activities'',
        schedule = ''Mondays, Wednesdays, Fridays, 2:00 PM - 3:00 PM'',
        max_participants = 30,
        participants = [''john@mergington.edu'', ''olivia@mergington.edu'']\<rparr>),
     (''Soccer Team'',
       \<lparr>description = ''Join the school soccer team and compete in matches'',
        schedule = ''Tuesdays and Thursdays, 4:00 PM - 5:30 PM'',
        max_participants = 22,
        participants = [''liam@mergington.edu'', ''noah@mergington.edu'']\<rparr>),
     (''Basketball Team'',
       \<lparr>description = ''Practice and play basketball with the school team'',
        schedule = ''Wednesdays and Fridays, 3:30 PM - 5:00 PM'',
        max_participants = 15,
        participants = [''ava@mergington.edu'', ''mia@mergington.edu'']\<rparr>),
     (''Art Club'',
       \<lparr>description = ''Explore your creativity through painting and drawing'',
        schedule = ''Thursdays, 3:30 PM - 5:00 PM'',
        max_participants = 15,
        participants = [''amelia@mergington.edu'', ''harper@mergington.edu'']\<rparr>),
     (''Drama Club'',
       \<lparr>description = ''Act, direct, and produce plays and performances'',
        schedule = ''Mondays and Wednesdays, 4:00 PM - 5:30 PM'',
        max_participants = 20,
        participants = [''ella@mergington.edu'', ''scarlett@mergington.edu'']\<rparr>),
     (''Math Club'',
       \<lparr>description = ''Solve challenging problems and participate in math competitions'',
        schedule = ''Tuesdays, 3:30 PM - 4:30 PM'',
        max_participants = 10,
        participants = [''james@mergington.edu'', ''benjamin@mergington.edu'']\<rparr>),
     (''Debate Team'',
       \<lparr>description = ''Develop public speaking and argumentation skills'',
        schedule = ''Fridays, 4:00 PM - 5:30 PM'',
        max_participants = 12,
        participants = [''charlotte@mergington.edu'', ''henry@mergington.edu'']\<rparr>)]"

text \<open>\<open>GET /activities\<close> returns the dictionary as it is.\<close>

definition get_activities :: "roster \<Rightarrow> roster" where
  "get_activities acts = acts"

text \<open>
  \<open>POST /activities/{activity_name}/signup\<close>. The two checks raise before anything is
  written, so the roster of a failed request is the roster it started from;
  \<open>list.append\<close> puts the email at the end of the participant list.
\<close>

definition signup_for_activity ::
  "roster \<Rightarrow> string \<Rightarrow> string \<Rightarrow> (http_error + jdict) \<times> roster" where
  "signup_for_activity acts activity_name email =
     (case acts activity_name of
        None \<Rightarrow> (Inl (HTTPException 404 ''Activity not found''), acts)
      | Some activity \<Rightarrow>
          if email \<in> set (participants activity)
          then (Inl (HTTPException 400 ''Student is already signed up''), acts)
          else (Inr [(''message'', JStr (''Signed up '' @ email @ '' for '' @ activity_name))],
                acts(activity_name \<mapsto>
                  activity\<lparr>participants := participants activity @ [email]\<rparr>)))"

text \<open>
  \<open>DELETE /activities/{activity_name}/unregister\<close>. \<open>list.remove\<close> deletes the first
  element equal to the email, which is \<open>remove1\<close>.
\<close>

definition unregister_from_activity ::
  "roster \<Rightarrow> string \<Rightarrow> string \<Rightarrow> (http_error + jdict) \<times> roster" where
  "unregister_from_activity acts activity_name email =
     (case acts activity_name of
        None \<Rightarrow> (Inl (HTTPException 404 ''Activity not found''), acts)
      | Some activity \<Rightarrow>
          if email \<notin> set (participants activity)
          then (Inl (HTTPException 400 ''Student is not signed up for this activity''), acts)
          else (Inr [(''message'', JStr (''Unregistered '' @ email @ '' from '' @ activity_name))],
                acts(activity_name \<mapsto>
                  activity\<lparr>participants := remove1 email (participants activity)\<rparr>)))"

text \<open>
  A run of the server is a sequence of roster requests handled one after the other; a
  request that raises leaves the roster as it was and the next request sees that roster.
\<close>

datatype roster_request = Signup string string | Unregister string string

fun handle :: "roster \<Rightarrow> roster_request \<Rightarrow> roster" where
  "handle acts (Signup activity_name email) = snd (signup_for_activity acts activity_name email)"
| "handle acts (Unregister activity_name email) =
     snd (unregister_from_activity acts activity_name email)"

definition run :: "roster \<Rightarrow> roster_request list \<Rightarrow> roster" where
  "run acts reqs = foldl handle acts reqs"

text \<open>Every participant list of the roster is free of duplicates.\<close>

definition unique_participants :: "roster \<Rightarrow> bool" where
  "unique_participants acts =
     (\<forall>activity_name activity. acts activity_name = Some activity \<longrightarrow>
        distinct (participants activity))"

subsection \<open>The testimonial table\<close>

text \<open>
  One row of the table \<open>testimonials\<close> that \<open>init_db\<close> creates, a field per column:
  \<open>id INTEGER PRIMARY KEY AUTOINCREMENT\<close>, \<open>author TEXT\<close>, \<open>text TEXT\<close>,
  \<open>approved INTEGER\<close> and \<open>created_at TEXT\<close>. The table is the list of its rows in the
  order they were inserted.
\<close>

record testimonial =
  t_id :: int
  t_author :: string
  t_text :: string
  t_approved :: int
  t_created_at :: string

type_synonym testimonials = "testimonial list"

text \<open>
  \<open>CREATE TABLE IF NOT EXISTS\<close>: a missing table (\<open>None\<close>) is created empty, an existing
  one is kept with its rows.
\<close>

definition init_db :: "testimonials option \<Rightarrow> testimonials" where
  "init_db tbl = (case tbl of None \<Rightarrow> [] | Some rows \<Rightarrow> rows)"

text \<open>
  The request body of \<open>POST /testimonials\<close>: the fields \<open>author\<close> and \<open>text\<close>, both
  of type \<open>str\<close>, so the empty string is a value of either. The field \<open>text\<close> is
  \<open>text_in\<close> here.
\<close>

record TestimonialIn =
  author :: string
  text_in :: string

text \<open>
  The dictionary \<open>get_testimonials\<close> builds from a fetched row; \<open>bool(r[3])\<close> is true
  for every integer other than 0.
\<close>

definition row_dict :: "testimonial \<Rightarrow> jdict" where
  "row_dict r =
     [(''id'', JInt (t_id r)),
      (''author'', JStr (t_author r)),
      (''text'', JStr (t_text r)),
      (''approved'', JBool (t_approved r \<noteq> 0)),
      (''created_at'', JStr (t_created_at r))]"

text \<open>
  \<open>GET /testimonials\<close>:
  \<open>SELECT ... FROM testimonials WHERE approved=1 ORDER BY created_at DESC\<close>.
  The column \<open>created_at\<close> is text, compared byte by byte, which is the lexicographic
  order on \<open>string\<close>. SQL leaves the order of rows with equal \<open>created_at\<close> open;
  SQLite returns them in the order of the table, that is by ascending \<open>id\<close>, and so does
  this function (\<open>sort_key\<close> is stable, and the two reversals turn it into a stable
  descending sort). No theorem below depends on the order of such rows.
  The handler only reads, so it returns its result alone.
\<close>

definition get_testimonials :: "testimonials \<Rightarrow> jdict list" where
  "get_testimonials tbl =
     map row_dict
       (rev (sort_key t_created_at (rev (filter (\<lambda>r. t_approved r = 1) tbl))))"

text \<open>
  The rowid an \<open>INSERT\<close> gives a new row of an \<open>AUTOINCREMENT\<close> table: one more than the
  largest rowid the table has held, and 1 for a table that never held a row. The program
  never deletes a row, so the largest rowid ever held is the largest one in the table.
  SQLite refuses the \<open>INSERT\<close> once the largest rowid is \<open>2 ^ 63 - 1\<close>; that takes
  \<open>2 ^ 63 - 1\<close> earlier submissions, and this function does not have that case.
\<close>

definition next_rowid :: "testimonials \<Rightarrow> int" where
  "next_rowid tbl = foldr max (map t_id tbl) 0 + 1"

text \<open>
  \<open>POST /testimonials\<close>. \<open>now\<close> stands for \<open>datetime.utcnow().isoformat()\<close>, the
  clock reading of the request. The returned dictionary has the four keys the source
  lists.
\<close>

definition submit_testimonial ::
  "testimonials \<Rightarrow> string \<Rightarrow> TestimonialIn \<Rightarrow> (http_error + jdict) \<times> testimonials" where
  "submit_testimonial tbl now payload =
     (let tid = next_rowid tbl in
        (Inr [(''id'', JInt tid),
              (''author'', JStr (author payload)),
              (''text'', JStr (text_in payload)),
              (''approved'', JBool False)],
         tbl @ [\<lparr>t_id = tid, t_author = author payload, t_text = text_in payload,
                 t_approved = 0, t_created_at = now\<rparr>]))"

text \<open>
  An SQLite \<open>INTEGER\<close> is a signed 64-bit integer. \<open>cur.execute\<close> converts a Python
  \<open>int\<close> parameter to one when it binds it and raises \<open>OverflowError\<close> for an \<open>int\<close>
  outside this range.
\<close>

definition int64_range :: "int \<Rightarrow> bool" where
  "int64_range n = (- (2 ^ 63) \<le> n \<and> n < 2 ^ 63)"

text \<open>
  \<open>PUT /testimonials/{testimonial_id}/approve\<close>. The path parameter is a Python \<open>int\<close>
  of any size. The \<open>SELECT\<close> binds it first, before the handler looks at the row, so an
  id outside the 64-bit range ends the request there. \<open>fetchone\<close> gives the first row
  with the id or \<open>None\<close>; the \<open>UPDATE\<close> writes \<open>new_val\<close> into every row with the id.
\<close>

definition toggle_testimonial_approval ::
  "testimonials \<Rightarrow> int \<Rightarrow> (http_error + jdict) \<times> testimonials" where
  "toggle_testimonial_approval tbl testimonial_id =
     (if \<not> int64_range testimonial_id then (Inl OverflowError, tbl)
      else
        (case find (\<lambda>r. t_id r = testimonial_id) tbl of
           None \<Rightarrow> (Inl (HTTPException 404 ''Testimonial not found''), tbl)
         | Some row \<Rightarrow>
             (let new_val = (if t_approved row = 1 then 0 else 1 :: int) in
                (Inr [(''id'', JInt testimonial_id), (''approved'', JBool (new_val \<noteq> 0))],
                 map (\<lambda>r. if t_id r = testimonial_id then r\<lparr>t_approved := new_val\<rparr> else r)
                   tbl))))"

text \<open>
  What the schema and the handlers maintain: \<open>id\<close> is a primary key, and \<open>approved\<close>
  holds 0 or 1.
\<close>

definition unique_ids :: "testimonials \<Rightarrow> bool" where
  "unique_ids tbl = distinct (map t_id tbl)"

definition approved_01 :: "testimonials \<Rightarrow> bool" where
  "approved_01 tbl = list_all (\<lambda>r. t_approved r = 0 \<or> t_approved r = 1) tbl"

definition wf_table :: "testimonials \<Rightarrow> bool" where
  "wf_table tbl = (unique_ids tbl \<and> approved_01 tbl)"

text \<open>A testimonial appears in a listing when one of the listed dictionaries carries its id.\<close>

definition appears_in :: "int \<Rightarrow> jdict list \<Rightarrow> bool" where
  "appears_in tid ds = list_ex (\<lambda>d. map_of d ''id'' = Some (JInt tid)) ds"

section \<open>Properties of the roster\<close>

subsection \<open>Uniqueness of participants is an invariant\<close>

lemma unique_participants_seed: "unique_participants activities"
  unfolding unique_participants_def activities_def
  by (simp split: if_splits)

lemma unique_participants_signup:
  "unique_participants acts \<Longrightarrow> unique_participants (snd (signup_for_activity acts n e))"
  unfolding unique_participants_def signup_for_activity_def
  by (auto split: option.splits if_splits)

lemma unique_participants_unregister:
  "unique_participants acts \<Longrightarrow> unique_participants (snd (unregister_from_activity acts n e))"
  unfolding unique_participants_def unregister_from_activity_def
  by (auto split: option.splits if_splits)

lemma unique_participants_handle:
  "unique_participants acts \<Longrightarrow> unique_participants (handle acts rq)"
  by (cases rq) (simp_all add: unique_participants_signup unique_participants_unregister)

lemma unique_participants_run:
  "unique_participants acts \<Longrightarrow> unique_participants (run acts reqs)"
  unfolding run_def
  by (induction reqs arbitrary: acts) (simp_all add: unique_participants_handle)

lemma count_list_distinct:
  "distinct ps \<Longrightarrow> count_list ps e = (if e \<in> set ps then 1 else 0)"
  by (induction ps) auto

lemma signup_unregister_signup:
  assumes "acts n = Some a" and "distinct (participants a)"
  shows "\<exists>a3. run acts [Signup n e, Unregister n e, Signup n e] n = Some a3
               \<and> count_list (participants a3) e = 1"
proof (cases "e \<in> set (participants a)")
  case True
  with assms show ?thesis
    by (simp add: run_def signup_for_activity_def unregister_from_activity_def
        count_list_distinct)
next
  case False
  with assms show ?thesis
    by (simp add: run_def signup_for_activity_def unregister_from_activity_def
        remove1_append count_list_distinct)
qed

subsection \<open>Signing up\<close>

text \<open>
  Claim C1. Signing up for a name that is not a key of the roster raises the 404
  ``Activity not found'' and signing up an email that is already in the activity's list
  raises the 400 ``Student is already signed up''; both leave the roster as it was.
  Otherwise the request succeeds and the only change is that the email is appended to the
  end of that activity's list. Repeating the successful request raises the 400 and leaves
  the roster, and so the number of participants, as the first request left it.
\<close>

theorem signup_for_activity_outcomes:
  "(acts activity_name = None \<longrightarrow>
      signup_for_activity acts activity_name email =
        (Inl (HTTPException 404 ''Activity not found''), acts))
   \<and> (\<forall>a. acts activity_name = Some a \<and> email \<in> set (participants a) \<longrightarrow>
      signup_for_activity acts activity_name email =
        (Inl (HTTPException 400 ''Student is already signed up''), acts))
   \<and> (\<forall>a. acts activity_name = Some a \<and> email \<notin> set (participants a) \<longrightarrow>
      (\<exists>msg acts1.
         signup_for_activity acts activity_name email = (Inr msg, acts1)
         \<and> acts1 = acts(activity_name \<mapsto> a\<lparr>participants := participants a @ [email]\<rparr>)
         \<and> signup_for_activity acts1 activity_name email =
             (Inl (HTTPException 400 ''Student is already signed up''), acts1)))"
  unfolding signup_for_activity_def
  by (auto split: option.splits)

theorem signup_for_activity_outcomes_witness:
  "activities ''Knitting Club'' = None
   \<and> signup_for_activity activities ''Knitting Club'' ''emma@mergington.edu'' =
       (Inl (HTTPException 404 ''Activity not found''), activities)
   \<and> map_option participants (activities ''Chess Club'') =
       Some [''michael@mergington.edu'', ''daniel@mergington.edu'']
   \<and> signup_for_activity activities ''Chess Club'' ''daniel@mergington.edu'' =
       (Inl (HTTPException 400 ''Student is already signed up''), activities)
   \<and> (\<exists>msg acts1.
        signup_for_activity activities ''Chess Club'' ''emma@mergington.edu'' = (Inr msg, acts1)
        \<and> map_option participants (acts1 ''Chess Club'') =
            Some [''michael@mergington.edu'', ''daniel@mergington.edu'', ''emma@mergington.edu'']
        \<and> signup_for_activity acts1 ''Chess Club'' ''emma@mergington.edu'' =
            (Inl (HTTPException 400 ''Student is already signed up''), acts1))"
proof -
  have k: "activities ''Knitting Club'' = None"
    by (simp add: activities_def)
  have c: "activities ''Chess Club'' =
    Some \<lparr>description = ''Learn strategies and compete in chess tournaments'',
        schedule = ''Fridays, 3:30 PM - 5:00 PM'',
        max_participants = 12,
        participants = [''michael@mergington.edu'', ''daniel@mergington.edu'']\<rparr>"
    by (simp add: activities_def)
  from k signup_for_activity_outcomes [of activities "''Knitting Club''" "''emma@mergington.edu''"]
  have 1: "signup_for_activity activities ''Knitting Club'' ''emma@mergington.edu'' =
       (Inl (HTTPException 404 ''Activity not found''), activities)"
    by blast
  from c signup_for_activity_outcomes [of activities "''Chess Club''" "''daniel@mergington.edu''"]
  have 2: "signup_for_activity activities ''Chess Club'' ''daniel@mergington.edu'' =
       (Inl (HTTPException 400 ''Student is already signed up''), activities)"
    by simp
  from c signup_for_activity_outcomes [of activities "''Chess Club''" "''emma@mergington.edu''"]
  have 3: "\<exists>msg acts1.
        signup_for_activity activities ''Chess Club'' ''emma@mergington.edu'' = (Inr msg, acts1)
        \<and> map_option participants (acts1 ''Chess Club'') =
            Some [''michael@mergington.edu'', ''daniel@mergington.edu'', ''emma@mergington.edu'']
        \<and> signup_for_activity acts1 ''Chess Club'' ''emma@mergington.edu'' =
            (Inl (HTTPException 400 ''Student is already signed up''), acts1)"
    by auto
  from k c 1 2 3 show ?thesis by simp
qed

subsection \<open>Unregistering\<close>

text \<open>
  Claim C2. Unregistering from a name that is not a key of the roster raises the 404
  ``Activity not found'' and unregistering an email that is not in the activity's list
  raises the 400 ``Student is not signed up for this activity''; both leave the roster as
  it was. Otherwise the request succeeds and the only change is that the first entry equal
  to the email is removed from that activity's list: the list is one shorter, and when
  it had no duplicates the email is no longer in it.
\<close>

theorem unregister_from_activity_outcomes:
  "(acts activity_name = None \<longrightarrow>
      unregister_from_activity acts activity_name email =
        (Inl (HTTPException 404 ''Activity not found''), acts))
   \<and> (\<forall>a. acts activity_name = Some a \<and> email \<notin> set (participants a) \<longrightarrow>
      unregister_from_activity acts activity_name email =
        (Inl (HTTPException 400 ''Student is not signed up for this activity''), acts))
   \<and> (\<forall>a. acts activity_name = Some a \<and> email \<in> set (participants a) \<longrightarrow>
      (\<exists>msg. unregister_from_activity acts activity_name email =
         (Inr msg, acts(activity_name \<mapsto> a\<lparr>participants := remove1 email (participants a)\<rparr>)))
      \<and> length (remove1 email (participants a)) + 1 = length (participants a)
      \<and> (distinct (participants a) \<longrightarrow> email \<notin> set (remove1 email (participants a))))"
  unfolding unregister_from_activity_def
  by (auto split: option.splits simp: length_remove1 intro: Suc_pred length_pos_if_in_set)

theorem unregister_from_activity_outcomes_witness:
  "activities ''Knitting Club'' = None
   \<and> unregister_from_activity activities ''Knitting Club'' ''emma@mergington.edu'' =
       (Inl (HTTPException 404 ''Activity not found''), activities)
   \<and> map_option participants (activities ''Chess Club'') =
       Some [''michael@mergington.edu'', ''daniel@mergington.edu'']
   \<and> unregister_from_activity activities ''Chess Club'' ''emma@mergington.edu'' =
       (Inl (HTTPException 400 ''Student is not signed up for this activity''), activities)
   \<and> (\<exists>msg acts1.
        unregister_from_activity activities ''Chess Club'' ''michael@mergington.edu'' =
          (Inr msg, acts1)
        \<and> map_option participants (acts1 ''Chess Club'') = Some [''daniel@mergington.edu''])"
proof -
  have k: "activities ''Knitting Club'' = None"
    by (simp add: activities_def)
  have c: "activities ''Chess Club'' =
    Some \<lparr>description = ''Learn strategies and compete in chess tournaments'',
        schedule = ''Fridays, 3:30 PM - 5:00 PM'',
        max_participants = 12,
        participants = [''michael@mergington.edu'', ''daniel@mergington.edu'']\<rparr>"
    by (simp add: activities_def)
  from k unregister_from_activity_outcomes
    [of activities "''Knitting Club''" "''emma@mergington.edu''"]
  have 1: "unregister_from_activity activities ''Knitting Club'' ''emma@mergington.edu'' =
       (Inl (HTTPException 404 ''Activity not found''), activities)"
    by blast
  from c unregister_from_activity_outcomes
    [of activities "''Chess Club''" "''emma@mergington.edu''"]
  have 2: "unregister_from_activity activities ''Chess Club'' ''emma@mergington.edu'' =
       (Inl (HTTPException 400 ''Student is not signed up for this activity''), activities)"
    by simp
  from c unregister_from_activity_outcomes
    [of activities "''Chess Club''" "''michael@mergington.edu''"]
  have 3: "\<exists>msg acts1.
        unregister_from_activity activities ''Chess Club'' ''michael@mergington.edu'' =
          (Inr msg, acts1)
        \<and> map_option participants (acts1 ''Chess Club'') = Some [''daniel@mergington.edu'']"
    by auto
  from k c 1 2 3 show ?thesis by simp
qed

subsection \<open>Capacity\<close>

text \<open>
  Claim C7. For an activity of the roster and an email that is not in its list, signing up
  succeeds whatever \<open>max_participants\<close> is: the email is appended, \<open>max_participants\<close>
  keeps its value, and a list that had already reached \<open>max_participants\<close> is longer
  than \<open>max_participants\<close> afterwards.
\<close>

theorem signup_ignores_max_participants:
  "acts activity_name = Some a \<Longrightarrow> email \<notin> set (participants a) \<Longrightarrow>
     \<exists>msg a1. signup_for_activity acts activity_name email = (Inr msg, acts(activity_name \<mapsto> a1))
       \<and> participants a1 = participants a @ [email]
       \<and> max_participants a1 = max_participants a
       \<and> (max_participants a \<le> int (length (participants a)) \<longrightarrow>
            max_participants a1 < int (length (participants a1)))"
  unfolding signup_for_activity_def
  by auto

theorem signup_ignores_max_participants_witness:
  "map_option max_participants
     ((run activities
        [Signup ''Math Club'' ''s1@mergington.edu'', Signup ''Math Club'' ''s2@mergington.edu'',
         Signup ''Math Club'' ''s3@mergington.edu'', Signup ''Math Club'' ''s4@mergington.edu'',
         Signup ''Math Club'' ''s5@mergington.edu'', Signup ''Math Club'' ''s6@mergington.edu'',
         Signup ''Math Club'' ''s7@mergington.edu'', Signup ''Math Club'' ''s8@mergington.edu'']) ''Math Club'') = Some 10
   \<and> map_option (\<lambda>a. length (participants a))
     ((run activities
        [Signup ''Math Club'' ''s1@mergington.edu'', Signup ''Math Club'' ''s2@mergington.edu'',
         Signup ''Math Club'' ''s3@mergington.edu'', Signup ''Math Club'' ''s4@mergington.edu'',
         Signup ''Math Club'' ''s5@mergington.edu'', Signup ''Math Club'' ''s6@mergington.edu'',
         Signup ''Math Club'' ''s7@mergington.edu'', Signup ''Math Club'' ''s8@mergington.edu'']) ''Math Club'') = Some 10
   \<and> \<not> isl (fst (signup_for_activity
       (run activities
        [Signup ''Math Club'' ''s1@mergington.edu'', Signup ''Math Club'' ''s2@mergington.edu'',
         Signup ''Math Club'' ''s3@mergington.edu'', Signup ''Math Club'' ''s4@mergington.edu'',
         Signup ''Math Club'' ''s5@mergington.edu'', Signup ''Math Club'' ''s6@mergington.edu'',
         Signup ''Math Club'' ''s7@mergington.edu'', Signup ''Math Club'' ''s8@mergington.edu'']) ''Math Club'' ''s9@mergington.edu''))
   \<and> map_option (\<lambda>a. length (participants a))
       (snd (signup_for_activity
          (run activities
        [Signup ''Math Club'' ''s1@mergington.edu'', Signup ''Math Club'' ''s2@mergington.edu'',
         Signup ''Math Club'' ''s3@mergington.edu'', Signup ''Math Club'' ''s4@mergington.edu'',
         Signup ''Math Club'' ''s5@mergington.edu'', Signup ''Math Club'' ''s6@mergington.edu'',
         Signup ''Math Club'' ''s7@mergington.edu'', Signup ''Math Club'' ''s8@mergington.edu'']) ''Math Club'' ''s9@mergington.edu'') ''Math Club'') = Some 11
   \<and> map_option max_participants
       (snd (signup_for_activity
          (run activities
        [Signup ''Math Club'' ''s1@mergington.edu'', Signup ''Math Club'' ''s2@mergington.edu'',
         Signup ''Math Club'' ''s3@mergington.edu'', Signup ''Math Club'' ''s4@mergington.edu'',
         Signup ''Math Club'' ''s5@mergington.edu'', Signup ''Math Club'' ''s6@mergington.edu'',
         Signup ''Math Club'' ''s7@mergington.edu'', Signup ''Math Club'' ''s8@mergington.edu'']) ''Math Club'' ''s9@mergington.edu'') ''Math Club'') = Some 10"
proof -
  let ?full = "(run activities
        [Signup ''Math Club'' ''s1@mergington.edu'', Signup ''Math Club'' ''s2@mergington.edu'',
         Signup ''Math Club'' ''s3@mergington.edu'', Signup ''Math Club'' ''s4@mergington.edu'',
         Signup ''Math Club'' ''s5@mergington.edu'', Signup ''Math Club'' ''s6@mergington.edu'',
         Signup ''Math Club'' ''s7@mergington.edu'', Signup ''Math Club'' ''s8@mergington.edu''])"
  let ?a = "\<lparr>description = ''Solve challenging problems and participate in math competitions'',
        schedule = ''Tuesdays, 3:30 PM - 4:30 PM'',
        max_participants = 10,
        participants = [''james@mergington.edu'', ''benjamin@mergington.edu'',
          ''s1@mergington.edu'', ''s2@mergington.edu'', ''s3@mergington.edu'',
          ''s4@mergington.edu'', ''s5@mergington.edu'', ''s6@mergington.edu'',
          ''s7@mergington.edu'', ''s8@mergington.edu'']\<rparr>"
  have c: "?full ''Math Club'' = Some ?a"
    by (simp add: run_def signup_for_activity_def activities_def)
  have n: "''s9@mergington.edu'' \<notin> set (participants ?a)"
    by simp
  from c n signup_ignores_max_participants
    [of ?full "''Math Club''" ?a "''s9@mergington.edu''"]
  obtain msg a1 where
    s: "signup_for_activity ?full ''Math Club'' ''s9@mergington.edu'' =
          (Inr msg, ?full(''Math Club'' \<mapsto> a1))"
    and p: "participants a1 = participants ?a @ [''s9@mergington.edu'']"
    and m: "max_participants a1 = max_participants ?a"
    by blast
  from p have l: "length (participants a1) = 11" by simp
  from m have m': "max_participants a1 = 10" by simp
  show ?thesis
    by (simp only: s c l m' fst_conv snd_conv map_option_case option.case sum.disc
        fun_upd_same activity.simps list.size length_Cons) simp
qed

subsection \<open>No duplicates\<close>

text \<open>
  Claim C9. The participant lists of the seed roster have no duplicates; any sequence of
  signup and unregister requests keeps the lists of a roster free of duplicates, so every
  roster reached from the seed has none; and in such a roster, signing an email up,
  unregistering it and signing it up again for an activity of the roster leaves the
  email exactly once in that activity's list.
\<close>

theorem participants_stay_unique:
  "unique_participants activities
   \<and> (unique_participants acts \<longrightarrow> unique_participants (run acts reqs))
   \<and> unique_participants (run activities reqs)
   \<and> (\<forall>a. run activities reqs n = Some a \<longrightarrow>
        (\<exists>a3. run (run activities reqs) [Signup n e, Unregister n e, Signup n e] n = Some a3
              \<and> count_list (participants a3) e = 1))"
proof -
  have u: "unique_participants (run activities reqs)"
    by (rule unique_participants_run [OF unique_participants_seed])
  have "\<exists>a3. run (run activities reqs) [Signup n e, Unregister n e, Signup n e] n = Some a3
              \<and> count_list (participants a3) e = 1"
    if "run activities reqs n = Some a" for a
    using that u signup_unregister_signup [of "run activities reqs" n a e]
    by (simp add: unique_participants_def)
  with u unique_participants_seed unique_participants_run [of acts reqs]
  show ?thesis by blast
qed

theorem participants_stay_unique_witness:
  "map_option participants
     (run activities
        [Signup ''Chess Club'' ''emma@mergington.edu'',
         Unregister ''Chess Club'' ''michael@mergington.edu''] ''Chess Club'') =
     Some [''daniel@mergington.edu'', ''emma@mergington.edu'']
   \<and> unique_participants
       (run activities
          [Signup ''Chess Club'' ''emma@mergington.edu'',
           Unregister ''Chess Club'' ''michael@mergington.edu''])
   \<and> (\<exists>a3. run
          (run activities
            [Signup ''Chess Club'' ''emma@mergington.edu'',
             Unregister ''Chess Club'' ''michael@mergington.edu''])
          [Signup ''Chess Club'' ''emma@mergington.edu'',
           Unregister ''Chess Club'' ''emma@mergington.edu'',
           Signup ''Chess Club'' ''emma@mergington.edu''] ''Chess Club'' = Some a3
        \<and> count_list (participants a3) ''emma@mergington.edu'' = 1)"
proof -
  let ?reqs = "[Signup ''Chess Club'' ''emma@mergington.edu'',
         Unregister ''Chess Club'' ''michael@mergington.edu'']"
  have c: "run activities ?reqs ''Chess Club'' =
    Some \<lparr>description = ''Learn strategies and compete in chess tournaments'',
        schedule = ''Fridays, 3:30 PM - 5:00 PM'',
        max_participants = 12,
        participants = [''daniel@mergington.edu'', ''emma@mergington.edu'']\<rparr>"
    by (simp add: run_def signup_for_activity_def unregister_from_activity_def activities_def)
  from c participants_stay_unique
    [of activities ?reqs "''Chess Club''" "''emma@mergington.edu''"]
  show ?thesis
    by simp
qed

subsection \<open>Requests touch one activity\<close>

text \<open>
  Claim C10. For two different activity names \<open>A\<close> and \<open>B\<close>: an email that is in the
  list of \<open>A\<close> and not in the list of \<open>B\<close> can be signed up for \<open>B\<close>: the request
  succeeds and its only effect is that the email is appended to the list of \<open>B\<close>, so the
  email is then in both lists and the entry of \<open>A\<close> is as it was; and a successful
  signup or unregister request for \<open>A\<close> leaves the whole entry of \<open>B\<close> as it was, and the
  description, schedule and \<open>max_participants\<close> of \<open>A\<close> as well.
\<close>

theorem roster_requests_are_per_activity:
  "A \<noteq> B \<Longrightarrow>
     (\<forall>a b. acts A = Some a \<and> acts B = Some b
          \<and> email \<in> set (participants a) \<and> email \<notin> set (participants b) \<longrightarrow>
        (\<exists>msg. signup_for_activity acts B email =
           (Inr msg, acts(B \<mapsto> b\<lparr>participants := participants b @ [email]\<rparr>))))
   \<and> (\<forall>msg acts1.
        signup_for_activity acts A email = (Inr msg, acts1)
        \<or> unregister_from_activity acts A email = (Inr msg, acts1) \<longrightarrow>
          acts1 B = acts B
          \<and> map_option description (acts1 A) = map_option description (acts A)
          \<and> map_option schedule (acts1 A) = map_option schedule (acts A)
          \<and> map_option max_participants (acts1 A) = map_option max_participants (acts A))"
  unfolding signup_for_activity_def unregister_from_activity_def
  by (auto split: option.splits if_splits)

theorem roster_requests_are_per_activity_witness:
  "''Chess Club'' \<noteq> ''Math Club''
   \<and> map_option participants (activities ''Chess Club'') =
       Some [''michael@mergington.edu'', ''daniel@mergington.edu'']
   \<and> map_option participants (activities ''Math Club'') =
       Some [''james@mergington.edu'', ''benjamin@mergington.edu'']
   \<and> fst (signup_for_activity activities ''Math Club'' ''michael@mergington.edu'') =
       Inr [(''message'', JStr ''Signed up michael@mergington.edu for Math Club'')]
   \<and> map_option participants
        (snd (signup_for_activity activities ''Math Club'' ''michael@mergington.edu'')
           ''Math Club'') =
       Some [''james@mergington.edu'', ''benjamin@mergington.edu'', ''michael@mergington.edu'']
   \<and> map_option participants
        (snd (signup_for_activity activities ''Math Club'' ''michael@mergington.edu'')
           ''Chess Club'') =
       Some [''michael@mergington.edu'', ''daniel@mergington.edu'']
   \<and> fst (unregister_from_activity activities ''Chess Club'' ''michael@mergington.edu'') =
       Inr [(''message'', JStr ''Unregistered michael@mergington.edu from Chess Club'')]
   \<and> snd (unregister_from_activity activities ''Chess Club'' ''michael@mergington.edu'')
        ''Math Club'' = activities ''Math Club''
   \<and> map_option max_participants
        (snd (unregister_from_activity activities ''Chess Club'' ''michael@mergington.edu'')
           ''Chess Club'') = Some 12"
proof -
  let ?chess = "\<lparr>description = ''Learn strategies and compete in chess tournaments'',
        schedule = ''Fridays, 3:30 PM - 5:00 PM'',
        max_participants = 12,
        participants = [''michael@mergington.edu'', ''daniel@mergington.edu'']\<rparr>"
  let ?math = "\<lparr>description = ''Solve challenging problems and participate in math competitions'',
        schedule = ''Tuesdays, 3:30 PM - 4:30 PM'',
        max_participants = 10,
        participants = [''james@mergington.edu'', ''benjamin@mergington.edu'']\<rparr>"
  have d: "''Chess Club'' \<noteq> ''Math Club''" by simp
  have c: "activities ''Chess Club'' = Some ?chess"
    by (simp add: activities_def)
  have m: "activities ''Math Club'' = Some ?math"
    by (simp add: activities_def)
  have f: "fst (unregister_from_activity activities ''Chess Club'' ''michael@mergington.edu'') =
    Inr [(''message'', JStr ''Unregistered michael@mergington.edu from Chess Club'')]"
    by (simp add: unregister_from_activity_def c)
  then have u: "unregister_from_activity activities ''Chess Club'' ''michael@mergington.edu'' =
    (Inr [(''message'', JStr ''Unregistered michael@mergington.edu from Chess Club'')],
     snd (unregister_from_activity activities ''Chess Club'' ''michael@mergington.edu''))"
    by (metis prod.collapse)
  note t = roster_requests_are_per_activity [OF d, of activities "''michael@mergington.edu''"]
  from t c m obtain msg where
    g: "signup_for_activity activities ''Math Club'' ''michael@mergington.edu'' =
      (Inr msg, activities(''Math Club'' \<mapsto>
         ?math\<lparr>participants := participants ?math @ [''michael@mergington.edu'']\<rparr>))"
    by auto
  have 0: "fst (signup_for_activity activities ''Math Club'' ''michael@mergington.edu'') =
       Inr [(''message'', JStr ''Signed up michael@mergington.edu for Math Club'')]"
    by (simp add: signup_for_activity_def m)
  from g have 1: "map_option participants
        (snd (signup_for_activity activities ''Math Club'' ''michael@mergington.edu'')
           ''Math Club'') =
       Some [''james@mergington.edu'', ''benjamin@mergington.edu'', ''michael@mergington.edu'']"
    by simp
  from g c have 4: "map_option participants
        (snd (signup_for_activity activities ''Math Club'' ''michael@mergington.edu'')
           ''Chess Club'') =
       Some [''michael@mergington.edu'', ''daniel@mergington.edu'']"
    by simp
  from t u have 2: "snd (unregister_from_activity activities ''Chess Club'' ''michael@mergington.edu'')
        ''Math Club'' = activities ''Math Club''"
    by blast
  from t u have 3: "map_option max_participants
        (snd (unregister_from_activity activities ''Chess Club'' ''michael@mergington.edu'')
           ''Chess Club'') = map_option max_participants (activities ''Chess Club'')"
    by blast
  from d c m f 0 1 2 3 4 show ?thesis by simp
qed

section \<open>Properties of the testimonial table\<close>

subsection \<open>Row ids and lookups\<close>

lemma t_id_le_foldr_max: "r \<in> set tbl \<Longrightarrow> t_id r \<le> foldr max (map t_id tbl) 0"
  by (induction tbl) auto

lemma t_id_less_next_rowid: "r \<in> set tbl \<Longrightarrow> t_id r < next_rowid tbl"
  unfolding next_rowid_def using t_id_le_foldr_max [of r tbl] by simp

lemma next_rowid_fresh: "next_rowid tbl \<notin> t_id ` set tbl"
  using t_id_less_next_rowid by fastforce

lemma next_rowid_positive: "0 < next_rowid tbl"
proof -
  have "0 \<le> foldr max (map t_id tbl) 0"
    by (induction tbl) auto
  then show ?thesis
    by (simp add: next_rowid_def)
qed

lemma find_t_id_None: "tid \<notin> t_id ` set tbl \<Longrightarrow> find (\<lambda>r. t_id r = tid) tbl = None"
  by (auto simp: find_None_iff)

lemma find_t_id_Some:
  "distinct (map t_id tbl) \<Longrightarrow> r \<in> set tbl \<Longrightarrow> find (\<lambda>x. t_id x = t_id r) tbl = Some r"
  by (induction tbl) (auto simp: rev_image_eqI)

lemma find_snoc:
  "find P (xs @ [x]) =
     (case find P xs of None \<Rightarrow> (if P x then Some x else None) | Some y \<Rightarrow> Some y)"
  by (induction xs) auto

lemma map_other_ids:
  "tid \<notin> t_id ` set tbl \<Longrightarrow> map (\<lambda>r. if t_id r = tid then f r else r) tbl = tbl"
  by (induction tbl) auto

lemma filter_other_ids:
  "tid \<notin> t_id ` set tbl \<Longrightarrow>
     \<not> appears_in tid (map row_dict (rev (sort_key t_created_at (rev (filter P tbl)))))"
  by (auto simp: appears_in_def list_ex_iff row_dict_def)

subsection \<open>The handlers keep the table well formed\<close>

lemma wf_table_init_db: "wf_table (init_db None)"
  by (simp add: wf_table_def unique_ids_def approved_01_def init_db_def)

lemma wf_table_submit:
  "wf_table tbl \<Longrightarrow> wf_table (snd (submit_testimonial tbl now payload))"
  using next_rowid_fresh [of tbl]
  by (simp add: wf_table_def unique_ids_def approved_01_def submit_testimonial_def Let_def)

lemma t_id_update:
  "t_id \<circ> (\<lambda>r. if t_id r = tid then r\<lparr>t_approved := v\<rparr> else r) = t_id"
  by (auto simp: fun_eq_iff)

lemma wf_table_toggle:
  "wf_table tbl \<Longrightarrow> wf_table (snd (toggle_testimonial_approval tbl tid))"
  by (auto simp: wf_table_def unique_ids_def approved_01_def toggle_testimonial_approval_def
      Let_def t_id_update list_all_iff split: option.splits)

subsection \<open>Toggling approval\<close>

text \<open>
  Claim C3, as the code has it. For an id in the signed 64-bit range: toggling an id that
  no row of the table has raises the 404 ``Testimonial not found'' and leaves every row
  as it was. For a row with the id, in a well-formed table, the request succeeds: the
  stored flag of that row becomes 1 when it was 0 and 0 when it was 1, every other row
  keeps its contents, and the response carries the id and the new flag, which is the
  negation of the old one.
\<close>

theorem toggle_testimonial_approval_outcomes:
  "int64_range tid \<Longrightarrow>
   (tid \<notin> t_id ` set tbl \<longrightarrow>
      toggle_testimonial_approval tbl tid =
        (Inl (HTTPException 404 ''Testimonial not found''), tbl))
   \<and> (\<forall>r. wf_table tbl \<and> r \<in> set tbl \<and> t_id r = tid \<longrightarrow>
        toggle_testimonial_approval tbl tid =
          (Inr [(''id'', JInt tid), (''approved'', JBool (\<not> (t_approved r \<noteq> 0)))],
           map (\<lambda>x. if t_id x = tid then x\<lparr>t_approved := 1 - t_approved r\<rparr> else x) tbl)
        \<and> (1 - t_approved r \<noteq> 0) = (\<not> (t_approved r \<noteq> 0)))"
proof (intro conjI impI allI)
  assume i: "int64_range tid" and "tid \<notin> t_id ` set tbl"
  then show "toggle_testimonial_approval tbl tid =
        (Inl (HTTPException 404 ''Testimonial not found''), tbl)"
    by (simp add: toggle_testimonial_approval_def find_t_id_None)
next
  fix r
  assume i: "int64_range tid"
  assume a: "wf_table tbl \<and> r \<in> set tbl \<and> t_id r = tid"
  then have f: "find (\<lambda>x. t_id x = tid) tbl = Some r"
    using find_t_id_Some [of tbl r] by (auto simp: wf_table_def unique_ids_def)
  from a have v: "t_approved r = 0 \<or> t_approved r = 1"
    by (auto simp: wf_table_def approved_01_def list_all_iff)
  from i f v show "toggle_testimonial_approval tbl tid =
          (Inr [(''id'', JInt tid), (''approved'', JBool (\<not> (t_approved r \<noteq> 0)))],
           map (\<lambda>x. if t_id x = tid then x\<lparr>t_approved := 1 - t_approved r\<rparr> else x) tbl)"
    by (auto simp: toggle_testimonial_approval_def)
  from v show "(1 - t_approved r \<noteq> 0) = (\<not> (t_approved r \<noteq> 0))" by auto
qed

theorem toggle_testimonial_approval_outcomes_witness:
  "int64_range 9999 \<and> int64_range 2 \<and> int64_range 1
   \<and> toggle_testimonial_approval
     [\<lparr>t_id = 1, t_author = ''Jane'', t_text = ''Great club!'', t_approved = 1,
        t_created_at = ''2024-05-01T10:00:00''\<rparr>,
      \<lparr>t_id = 2, t_author = ''Omar'', t_text = ''Loved the chess nights'', t_approved = 0,
        t_created_at = ''2024-05-02T09:30:00.123456''\<rparr>] 9999 =
     (Inl (HTTPException 404 ''Testimonial not found''),
      [\<lparr>t_id = 1, t_author = ''Jane'', t_text = ''Great club!'', t_approved = 1,
         t_created_at = ''2024-05-01T10:00:00''\<rparr>,
       \<lparr>t_id = 2, t_author = ''Omar'', t_text = ''Loved the chess nights'', t_approved = 0,
         t_created_at = ''2024-05-02T09:30:00.123456''\<rparr>])
   \<and> toggle_testimonial_approval
     [\<lparr>t_id = 1, t_author = ''Jane'', t_text = ''Great club!'', t_approved = 1,
        t_created_at = ''2024-05-01T10:00:00''\<rparr>,
      \<lparr>t_id = 2, t_author = ''Omar'', t_text = ''Loved the chess nights'', t_approved = 0,
        t_created_at = ''2024-05-02T09:30:00.123456''\<rparr>] 2 =
     (Inr [(''id'', JInt 2), (''approved'', JBool True)],
      [\<lparr>t_id = 1, t_author = ''Jane'', t_text = ''Great club!'', t_approved = 1,
         t_created_at = ''2024-05-01T10:00:00''\<rparr>,
       \<lparr>t_id = 2, t_author = ''Omar'', t_text = ''Loved the chess nights'', t_approved = 1,
         t_created_at = ''2024-05-02T09:30:00.123456''\<rparr>])
   \<and> toggle_testimonial_approval
     [\<lparr>t_id = 1, t_author = ''Jane'', t_text = ''Great club!'', t_approved = 1,
        t_created_at = ''2024-05-01T10:00:00''\<rparr>,
      \<lparr>t_id = 2, t_author = ''Omar'', t_text = ''Loved the chess nights'', t_approved = 0,
        t_created_at = ''2024-05-02T09:30:00.123456''\<rparr>] 1 =
     (Inr [(''id'', JInt 1), (''approved'', JBool False)],
      [\<lparr>t_id = 1, t_author = ''Jane'', t_text = ''Great club!'', t_approved = 0,
         t_created_at = ''2024-05-01T10:00:00''\<rparr>,
       \<lparr>t_id = 2, t_author = ''Omar'', t_text = ''Loved the chess nights'', t_approved = 0,
         t_created_at = ''2024-05-02T09:30:00.123456''\<rparr>])"
proof -
  let ?jane = "\<lparr>t_id = 1, t_author = ''Jane'', t_text = ''Great club!'', t_approved = 1,
        t_created_at = ''2024-05-01T10:00:00''\<rparr>"
  let ?omar = "\<lparr>t_id = 2, t_author = ''Omar'', t_text = ''Loved the chess nights'',
        t_approved = 0, t_created_at = ''2024-05-02T09:30:00.123456''\<rparr>"
  let ?tbl = "[?jane, ?omar]"
  have w: "wf_table ?tbl"
    by (simp add: wf_table_def unique_ids_def approved_01_def)
  have n: "9999 \<notin> t_id ` set ?tbl"
    by simp
  have i: "int64_range 9999" "int64_range 2" "int64_range 1"
    by (simp_all add: int64_range_def)
  from n toggle_testimonial_approval_outcomes [OF i(1), of ?tbl]
  have 1: "toggle_testimonial_approval ?tbl 9999 =
      (Inl (HTTPException 404 ''Testimonial not found''), ?tbl)"
    by blast
  from w toggle_testimonial_approval_outcomes [OF i(2), of ?tbl, THEN conjunct2, THEN spec, of ?omar]
  have "toggle_testimonial_approval ?tbl 2 =
          (Inr [(''id'', JInt 2), (''approved'', JBool (\<not> (t_approved ?omar \<noteq> 0)))],
           map (\<lambda>x. if t_id x = 2 then x\<lparr>t_approved := 1 - t_approved ?omar\<rparr> else x) ?tbl)"
    by simp
  then have 2: "toggle_testimonial_approval ?tbl 2 =
     (Inr [(''id'', JInt 2), (''approved'', JBool True)], [?jane, ?omar\<lparr>t_approved := 1\<rparr>])"
    by simp
  from w toggle_testimonial_approval_outcomes [OF i(3), of ?tbl, THEN conjunct2, THEN spec, of ?jane]
  have "toggle_testimonial_approval ?tbl 1 =
          (Inr [(''id'', JInt 1), (''approved'', JBool (\<not> (t_approved ?jane \<noteq> 0)))],
           map (\<lambda>x. if t_id x = 1 then x\<lparr>t_approved := 1 - t_approved ?jane\<rparr> else x) ?tbl)"
    by simp
  then have 3: "toggle_testimonial_approval ?tbl 1 =
     (Inr [(''id'', JInt 1), (''approved'', JBool False)], [?jane\<lparr>t_approved := 0\<rparr>, ?omar])"
    by simp
  from i 1 2 3 show ?thesis by simp
qed

text \<open>
  Claim C3 as stated covers every id. With Jane's testimonial in the table, no row has
  the id \<open>2 ^ 63\<close>, yet toggling it does not raise the 404: binding the id raises
  \<open>OverflowError\<close> before the handler tests for the row. The table is left as it was.
\<close>

theorem toggle_testimonial_approval_counterexample:
  "9223372036854775808 \<notin> t_id ` set
     [\<lparr>t_id = 1, t_author = ''Jane'', t_text = ''Great club!'', t_approved = 1,
        t_created_at = ''2024-05-01T10:00:00''\<rparr>]
   \<and> toggle_testimonial_approval
     [\<lparr>t_id = 1, t_author = ''Jane'', t_text = ''Great club!'', t_approved = 1,
        t_created_at = ''2024-05-01T10:00:00''\<rparr>] 9223372036854775808 =
     (Inl OverflowError,
      [\<lparr>t_id = 1, t_author = ''Jane'', t_text = ''Great club!'', t_approved = 1,
         t_created_at = ''2024-05-01T10:00:00''\<rparr>])
   \<and> fst (toggle_testimonial_approval
     [\<lparr>t_id = 1, t_author = ''Jane'', t_text = ''Great club!'', t_approved = 1,
        t_created_at = ''2024-05-01T10:00:00''\<rparr>] 9223372036854775808) \<noteq>
     Inl (HTTPException 404 ''Testimonial not found'')"
  by (simp add: toggle_testimonial_approval_def int64_range_def)

subsection \<open>Listing approved testimonials\<close>

text \<open>
  Claim C4. \<open>get_testimonials\<close> has no failing path: it returns a list. In a table
  whose flags are 0 or 1 the list holds, rendered as dictionaries, exactly the rows whose
  flag is true, each as often as the table has it, in descending order of \<open>created_at\<close>;
  when no row is approved the list is empty.
\<close>

theorem get_testimonials_lists_approved:
  "approved_01 tbl \<Longrightarrow>
     (\<exists>rs. get_testimonials tbl = map row_dict rs
          \<and> mset rs = mset (filter (\<lambda>r. t_approved r \<noteq> 0) tbl)
          \<and> sorted_wrt (\<lambda>r s. t_created_at s \<le> t_created_at r) rs)
     \<and> ((\<forall>r \<in> set tbl. t_approved r = 0) \<longrightarrow> get_testimonials tbl = [])"
proof -
  assume a: "approved_01 tbl"
  let ?rs = "rev (sort_key t_created_at (rev (filter (\<lambda>r. t_approved r = 1) tbl)))"
  from a have e: "filter (\<lambda>r. t_approved r = 1) tbl = filter (\<lambda>r. t_approved r \<noteq> 0) tbl"
    by (intro filter_cong) (auto simp: approved_01_def list_all_iff)
  have s: "sorted_wrt (\<lambda>r s. t_created_at s \<le> t_created_at r) ?rs"
    using sorted_sort_key [of t_created_at "rev (filter (\<lambda>r. t_approved r = 1) tbl)"]
    by (simp add: sorted_wrt_rev sorted_map)
  have m: "mset ?rs = mset (filter (\<lambda>r. t_approved r \<noteq> 0) tbl)"
    using e by simp
  have n: "get_testimonials tbl = []" if "\<forall>r \<in> set tbl. t_approved r = 0"
    using that by (simp add: get_testimonials_def filter_empty_conv)
  from s m n show ?thesis
    unfolding get_testimonials_def by blast
qed

theorem get_testimonials_lists_approved_witness:
  "approved_01
     [\<lparr>t_id = 1, t_author = ''Jane'', t_text = ''Great club!'', t_approved = 1,
        t_created_at = ''2024-05-01T10:00:00''\<rparr>,
      \<lparr>t_id = 2, t_author = ''Omar'', t_text = ''Loved the chess nights'', t_approved = 0,
        t_created_at = ''2024-05-02T09:30:00.123456''\<rparr>,
      \<lparr>t_id = 3, t_author = ''Li'', t_text = ''Fun'', t_approved = 1,
        t_created_at = ''2024-05-03T08:00:00''\<rparr>]
   \<and> get_testimonials
     [\<lparr>t_id = 1, t_author = ''Jane'', t_text = ''Great club!'', t_approved = 1,
        t_created_at = ''2024-05-01T10:00:00''\<rparr>,
      \<lparr>t_id = 2, t_author = ''Omar'', t_text = ''Loved the chess nights'', t_approved = 0,
        t_created_at = ''2024-05-02T09:30:00.123456''\<rparr>,
      \<lparr>t_id = 3, t_author = ''Li'', t_text = ''Fun'', t_approved = 1,
        t_created_at = ''2024-05-03T08:00:00''\<rparr>] =
     [[(''id'', JInt 3), (''author'', JStr ''Li''), (''text'', JStr ''Fun''),
       (''approved'', JBool True), (''created_at'', JStr ''2024-05-03T08:00:00'')],
      [(''id'', JInt 1), (''author'', JStr ''Jane''), (''text'', JStr ''Great club!''),
       (''approved'', JBool True), (''created_at'', JStr ''2024-05-01T10:00:00'')]]
   \<and> get_testimonials
     [\<lparr>t_id = 2, t_author = ''Omar'', t_text = ''Loved the chess nights'', t_approved = 0,
        t_created_at = ''2024-05-02T09:30:00.123456''\<rparr>] = []
   \<and> (\<exists>rs. get_testimonials
     [\<lparr>t_id = 1, t_author = ''Jane'', t_text = ''Great club!'', t_approved = 1,
        t_created_at = ''2024-05-01T10:00:00''\<rparr>,
      \<lparr>t_id = 2, t_author = ''Omar'', t_text = ''Loved the chess nights'', t_approved = 0,
        t_created_at = ''2024-05-02T09:30:00.123456''\<rparr>,
      \<lparr>t_id = 3, t_author = ''Li'', t_text = ''Fun'', t_approved = 1,
        t_created_at = ''2024-05-03T08:00:00''\<rparr>] = map row_dict rs
      \<and> mset rs = mset (filter (\<lambda>r. t_approved r \<noteq> 0)
     [\<lparr>t_id = 1, t_author = ''Jane'', t_text = ''Great club!'', t_approved = 1,
        t_created_at = ''2024-05-01T10:00:00''\<rparr>,
      \<lparr>t_id = 2, t_author = ''Omar'', t_text = ''Loved the chess nights'', t_approved = 0,
        t_created_at = ''2024-05-02T09:30:00.123456''\<rparr>,
      \<lparr>t_id = 3, t_author = ''Li'', t_text = ''Fun'', t_approved = 1,
        t_created_at = ''2024-05-03T08:00:00''\<rparr>])
      \<and> sorted_wrt (\<lambda>r s. t_created_at s \<le> t_created_at r) rs)"
proof -
  let ?jane = "\<lparr>t_id = 1, t_author = ''Jane'', t_text = ''Great club!'', t_approved = 1,
        t_created_at = ''2024-05-01T10:00:00''\<rparr>"
  let ?omar = "\<lparr>t_id = 2, t_author = ''Omar'', t_text = ''Loved the chess nights'',
        t_approved = 0, t_created_at = ''2024-05-02T09:30:00.123456''\<rparr>"
  let ?li = "\<lparr>t_id = 3, t_author = ''Li'', t_text = ''Fun'', t_approved = 1,
        t_created_at = ''2024-05-03T08:00:00''\<rparr>"
  have a: "approved_01 [?jane, ?omar, ?li]"
    by (simp add: approved_01_def)
  have b: "approved_01 [?omar]"
    by (simp add: approved_01_def)
  from get_testimonials_lists_approved [OF b]
  have 2: "get_testimonials [?omar] = []"
    by simp
  from get_testimonials_lists_approved [OF a]
  have 3: "\<exists>rs. get_testimonials [?jane, ?omar, ?li] = map row_dict rs
      \<and> mset rs = mset (filter (\<lambda>r. t_approved r \<noteq> 0) [?jane, ?omar, ?li])
      \<and> sorted_wrt (\<lambda>r s. t_created_at s \<le> t_created_at r) rs"
    by blast
  have 1: "get_testimonials [?jane, ?omar, ?li] = [row_dict ?li, row_dict ?jane]"
    by (simp add: get_testimonials_def)
  from 1 have d: "get_testimonials [?jane, ?omar, ?li] =
     [[(''id'', JInt 3), (''author'', JStr ''Li''), (''text'', JStr ''Fun''),
       (''approved'', JBool True), (''created_at'', JStr ''2024-05-03T08:00:00'')],
      [(''id'', JInt 1), (''author'', JStr ''Jane''), (''text'', JStr ''Great club!''),
       (''approved'', JBool True), (''created_at'', JStr ''2024-05-01T10:00:00'')]]"
    by (simp add: row_dict_def)
  from a d 2 3 show ?thesis
    by blast
qed

subsection \<open>Submitting\<close>




subsection \<open>Empty author or text\<close>




subsection \<open>Visibility follows the toggle\<close>

text \<open>
  Claim C8. In a table whose next id is a 64-bit integer, as every id SQLite issues is:
  the response of \<open>submit_testimonial\<close> carries \<open>approved\<close> false and an id
  that \<open>get_testimonials\<close> does not list; after one toggle of that id, which answers
  \<open>approved\<close> true, \<open>get_testimonials\<close> lists it; a second toggle answers \<open>approved\<close>
  false and gives back the table as it was after the submission, in which the id is not
  listed.
\<close>

theorem testimonial_visibility_toggles:
  "int64_range (next_rowid tbl) \<Longrightarrow>
   \<exists>tid resp tbl1 tbl2.
     submit_testimonial tbl now payload = (Inr resp, tbl1)
     \<and> map_of resp ''id'' = Some (JInt tid)
     \<and> map_of resp ''approved'' = Some (JBool False)
     \<and> \<not> appears_in tid (get_testimonials tbl1)
     \<and> toggle_testimonial_approval tbl1 tid =
         (Inr [(''id'', JInt tid), (''approved'', JBool True)], tbl2)
     \<and> appears_in tid (get_testimonials tbl2)
     \<and> toggle_testimonial_approval tbl2 tid =
         (Inr [(''id'', JInt tid), (''approved'', JBool False)], tbl1)
     \<and> \<not> appears_in tid (get_testimonials tbl1)"
proof -
  assume i: "int64_range (next_rowid tbl)"
  let ?tid = "next_rowid tbl"
  let ?row = "\<lparr>t_id = ?tid, t_author = author payload, t_text = text_in payload,
               t_approved = 0, t_created_at = now\<rparr>"
  let ?tbl1 = "tbl @ [?row]"
  let ?tbl2 = "tbl @ [?row\<lparr>t_approved := 1\<rparr>]"
  have fresh: "?tid \<notin> t_id ` set tbl" by (rule next_rowid_fresh)
  have fnd: "find (\<lambda>r. t_id r = ?tid) (tbl @ [x]) = (if t_id x = ?tid then Some x else None)" for x
    using fresh by (simp add: find_snoc find_t_id_None)
  have s: "submit_testimonial tbl now payload =
     (Inr [(''id'', JInt ?tid), (''author'', JStr (author payload)),
            (''text'', JStr (text_in payload)), (''approved'', JBool False)], ?tbl1)"
    by (simp add: submit_testimonial_def Let_def)
  have t1: "toggle_testimonial_approval ?tbl1 ?tid =
         (Inr [(''id'', JInt ?tid), (''approved'', JBool True)], ?tbl2)"
    using fresh i by (simp add: toggle_testimonial_approval_def fnd map_other_ids)
  have t2: "toggle_testimonial_approval ?tbl2 ?tid =
         (Inr [(''id'', JInt ?tid), (''approved'', JBool False)], ?tbl1)"
    using fresh i by (simp add: toggle_testimonial_approval_def fnd map_other_ids)
  have n1: "\<not> appears_in ?tid (get_testimonials ?tbl1)"
    using filter_other_ids [OF fresh] by (simp add: get_testimonials_def)
  have n2: "appears_in ?tid (get_testimonials ?tbl2)"
    by (simp add: get_testimonials_def appears_in_def list_ex_iff row_dict_def set_insort_key)
  from s t1 t2 n1 n2 show ?thesis by simp
qed

theorem testimonial_visibility_toggles_witness:
  "int64_range (next_rowid [])
   \<and> submit_testimonial [] ''2024-05-01T10:00:00'' \<lparr>author = ''Jane'', text_in = ''Great club!''\<rparr> =
     (Inr [(''id'', JInt 1), (''author'', JStr ''Jane''), (''text'', JStr ''Great club!''),
           (''approved'', JBool False)],
      [\<lparr>t_id = 1, t_author = ''Jane'', t_text = ''Great club!'', t_approved = 0,
         t_created_at = ''2024-05-01T10:00:00''\<rparr>])
   \<and> get_testimonials
       [\<lparr>t_id = 1, t_author = ''Jane'', t_text = ''Great club!'', t_approved = 0,
          t_created_at = ''2024-05-01T10:00:00''\<rparr>] = []
   \<and> toggle_testimonial_approval
       [\<lparr>t_id = 1, t_author = ''Jane'', t_text = ''Great club!'', t_approved = 0,
          t_created_at = ''2024-05-01T10:00:00''\<rparr>] 1 =
     (Inr [(''id'', JInt 1), (''approved'', JBool True)],
      [\<lparr>t_id = 1, t_author = ''Jane'', t_text = ''Great club!'', t_approved = 1,
         t_created_at = ''2024-05-01T10:00:00''\<rparr>])
   \<and> get_testimonials
       [\<lparr>t_id = 1, t_author = ''Jane'', t_text = ''Great club!'', t_approved = 1,
          t_created_at = ''2024-05-01T10:00:00''\<rparr>] =
     [[(''id'', JInt 1), (''author'', JStr ''Jane''), (''text'', JStr ''Great club!''),
       (''approved'', JBool True), (''created_at'', JStr ''2024-05-01T10:00:00'')]]
   \<and> toggle_testimonial_approval
       [\<lparr>t_id = 1, t_author = ''Jane'', t_text = ''Great club!'', t_approved = 1,
          t_created_at = ''2024-05-01T10:00:00''\<rparr>] 1 =
     (Inr [(''id'', JInt 1), (''approved'', JBool False)],
      [\<lparr>t_id = 1, t_author = ''Jane'', t_text = ''Great club!'', t_approved = 0,
         t_created_at = ''2024-05-01T10:00:00''\<rparr>])"
proof -
  have i: "int64_range (next_rowid [])"
    by (simp add: next_rowid_def int64_range_def)
  from i testimonial_visibility_toggles
    [OF i, of "''2024-05-01T10:00:00''" "\<lparr>author = ''Jane'', text_in = ''Great club!''\<rparr>"]
  show ?thesis
    by (simp add: submit_testimonial_def next_rowid_def get_testimonials_def
        toggle_testimonial_approval_def row_dict_def int64_range_def)
qed

end
